theory Spec2Isabelle
  imports Main
begin

section \<open>Python values\<close>

text \<open>
  A Python 3 \<^verbatim>\<open>str\<close> is a sequence of Unicode code points; it is modelled as the list
  of their numbers, so that \<^verbatim>\<open>str.strip\<close> and character classes see what Python sees.
  \<open>lit\<close> turns an ASCII literal of the source into such a string.
\<close>

type_synonym pystr = "nat list"

definition lit :: "string \<Rightarrow> pystr" where
  "lit s = map of_char s"

text \<open>
  What \<^verbatim>\<open>await response.json()\<close> can produce. An object keeps its members in document
  order; a float keeps its literal text (the program never inspects one).
\<close>

datatype pyval =
    PNone
  | PBool bool
  | PInt int
  | PFloat pystr
  | PStr pystr
  | PList "pyval list"
  | PDict "(pystr \<times> pyval) list"

text \<open>
  The exceptions the program can meet. \<open>ClientError\<close> is \<^verbatim>\<open>aiohttp.ClientError\<close> or a
  subclass of it, \<open>OtherException\<close> any other subclass of \<^verbatim>\<open>Exception\<close> coming from the
  transport or from the decoding of the body (\<^verbatim>\<open>asyncio.TimeoutError\<close>,
  \<^verbatim>\<open>json.JSONDecodeError\<close>); both carry \<^verbatim>\<open>str(e)\<close>. \<open>KeyboardInterrupt\<close> is a
  \<^verbatim>\<open>BaseException\<close> that is not an \<^verbatim>\<open>Exception\<close>.
\<close>

datatype exn =
    ClientError pystr
  | OtherException pystr
  | TypeError
  | KeyError pystr
  | KeyboardInterrupt

fun is_ClientError :: "exn \<Rightarrow> bool" where
  "is_ClientError (ClientError _) = True"
| "is_ClientError _ = False"

fun is_Exception :: "exn \<Rightarrow> bool" where
  "is_Exception KeyboardInterrupt = False"
| "is_Exception _ = True"

text \<open>
  \<^verbatim>\<open>d[k]\<close> on a dict: Python's \<^verbatim>\<open>json\<close> keeps the last value of a repeated member name.
\<close>

definition dict_get :: "(pystr \<times> pyval) list \<Rightarrow> pystr \<Rightarrow> pyval option" where
  "dict_get kvs k = map_of (rev kvs) k"

text \<open>The keys of a dict in insertion order, each once.\<close>

definition dict_keys :: "(pystr \<times> pyval) list \<Rightarrow> pystr list" where
  "dict_keys kvs = rev (remdups (rev (map fst kvs)))"

text \<open>
  \<^verbatim>\<open>for breach in data\<close>: a list yields its elements, a dict its keys, a string its
  characters; anything else is not iterable.
\<close>

fun py_iter :: "pyval \<Rightarrow> exn + pyval list" where
  "py_iter (PList xs) = Inr xs"
| "py_iter (PDict kvs) = Inr (map PStr (dict_keys kvs))"
| "py_iter (PStr s) = Inr (map (\<lambda>c. PStr [c]) s)"
| "py_iter _ = Inl TypeError"

text \<open>
  \<^verbatim>\<open>breach['Name']\<close>: a dict looks the key up and raises \<^verbatim>\<open>KeyError\<close> when it is
  missing; a list or a string refuses a string index, the other values no index at all.
\<close>

fun py_getitem :: "pyval \<Rightarrow> pystr \<Rightarrow> exn + pyval" where
  "py_getitem (PDict kvs) k = (case dict_get kvs k of None \<Rightarrow> Inl (KeyError k) | Some v \<Rightarrow> Inr v)"
| "py_getitem _ k = Inl TypeError"

section \<open>The request and what the program writes\<close>

record response =
  status :: int
  json :: "exn + pyval"

text \<open>
  The network is a parameter: \<^verbatim>\<open>session.get(url, headers=headers)\<close> either raises or
  gives a response, whose \<open>json\<close> field is the outcome of \<^verbatim>\<open>await response.json()\<close>.
\<close>

type_synonym network = "pystr \<Rightarrow> (pystr \<times> pystr) list \<Rightarrow> exn + response"

datatype level = INFO | WARNING | ERROR

text \<open>One constructor for each message text of the source, holding the values it formats.\<close>

datatype message =
    FoundInBreaches pystr "pyval list"
  | NotFoundInBreaches pystr
  | RateLimitExceeded
  | StatusCodeError int
  | AiohttpError exn
  | UnexpectedError exn
  | SearchingCodeRepositories pystr
  | CodeRepositoriesPlaceholder pystr
  | SearchingPasteSites pystr
  | PasteSitesPlaceholder pystr
  | CheckingEmail pystr
  | SearchingOrganization pystr
  | SearchingTechnology pystr
  | ProvideSearchTerm
  | NoSearchTerm
  | InvalidEmailFormat
  | OrganizationEmpty
  | TechnologyEmpty
  | Exiting
  | UsageError

datatype effect =
    Get pystr "(pystr \<times> pystr) list"
  | Log level message
  | Print message
  | Stderr message

section \<open>BreachAlarm.check_hibp\<close>

definition hibp_url :: "pystr \<Rightarrow> pystr" where
  "hibp_url email = lit ''https://haveibeenpwned.com/api/v3/breachedaccount/'' @ email"

definition hibp_headers :: "(pystr \<times> pystr) list" where
  "hibp_headers = [(lit ''hibp-api-key'', lit ''anonymous'')]"

text \<open>\<^verbatim>\<open>[breach['Name'] for breach in data]\<close> over the elements: the first failure ends it.\<close>

fun names_of :: "pyval list \<Rightarrow> exn + pyval list" where
  "names_of [] = Inr []"
| "names_of (b # bs) =
     (case py_getitem b (lit ''Name'') of
        Inl e \<Rightarrow> Inl e
      | Inr n \<Rightarrow> (case names_of bs of Inl e \<Rightarrow> Inl e | Inr ns \<Rightarrow> Inr (n # ns)))"

definition breach_names :: "pyval \<Rightarrow> exn + pyval list" where
  "breach_names data = (case py_iter data of Inl e \<Rightarrow> Inl e | Inr bs \<Rightarrow> names_of bs)"

text \<open>The branches on \<^verbatim>\<open>response.status\<close>, in the order of the source.\<close>

definition on_response :: "pystr \<Rightarrow> response \<Rightarrow> effect list \<times> (exn + pyval list option)" where
  "on_response email r =
     (if status r = 200 then
        (case json r of
           Inl e \<Rightarrow> ([], Inl e)
         | Inr data \<Rightarrow>
             (case breach_names data of
                Inl e \<Rightarrow> ([], Inl e)
              | Inr names \<Rightarrow> ([Log INFO (FoundInBreaches email names)], Inr (Some names))))
      else if status r = 404 then
        ([Log INFO (NotFoundInBreaches email)], Inr None)
      else if status r = 429 then
        ([Log WARNING RateLimitExceeded, Print RateLimitExceeded], Inr None)
      else
        ([Log ERROR (StatusCodeError (status r)), Print (StatusCodeError (status r))], Inr None))"

text \<open>The body of the \<^verbatim>\<open>try\<close>: one request, then the branches.\<close>

definition try_body :: "network \<Rightarrow> pystr \<Rightarrow> effect list \<times> (exn + pyval list option)" where
  "try_body net email =
     (let url = hibp_url email; headers = hibp_headers in
      case net url headers of
        Inl e \<Rightarrow> ([Get url headers], Inl e)
      | Inr r \<Rightarrow> (case on_response email r of (out, res) \<Rightarrow> (Get url headers # out, res)))"

text \<open>
  The two \<^verbatim>\<open>except\<close> clauses: \<^verbatim>\<open>aiohttp.ClientError\<close> first, then \<^verbatim>\<open>Exception\<close>
  (\<^verbatim>\<open>logging.exception\<close> logs at level ERROR); anything else propagates.
\<close>

definition on_exception :: "exn \<Rightarrow> effect list \<times> (exn + pyval list option)" where
  "on_exception e =
     (if is_ClientError e then ([Log ERROR (AiohttpError e), Print (AiohttpError e)], Inr None)
      else if is_Exception e then ([Log ERROR (UnexpectedError e), Print (UnexpectedError e)], Inr None)
      else ([], Inl e))"

definition check_hibp :: "network \<Rightarrow> pystr \<Rightarrow> effect list \<times> (exn + pyval list option)" where
  "check_hibp net email =
     (case try_body net email of
        (out, Inl e) \<Rightarrow> (case on_exception e of (out', res) \<Rightarrow> (out @ out', res))
      | (out, Inr v) \<Rightarrow> (out, Inr v))"

section \<open>is_valid_email\<close>

text \<open>
  Regular expressions over code points, matched by derivatives: \<open>matches r s\<close> holds
  when \<open>r\<close> matches the whole of \<open>s\<close>. A character class is a predicate.
\<close>

datatype rexp =
    Zero
  | One
  | Cls "nat \<Rightarrow> bool"
  | Alt rexp rexp
  | Seq rexp rexp
  | Star rexp

fun nullable :: "rexp \<Rightarrow> bool" where
  "nullable Zero = False"
| "nullable One = True"
| "nullable (Cls p) = False"
| "nullable (Alt r s) = (nullable r \<or> nullable s)"
| "nullable (Seq r s) = (nullable r \<and> nullable s)"
| "nullable (Star r) = True"

fun deriv :: "nat \<Rightarrow> rexp \<Rightarrow> rexp" where
  "deriv c Zero = Zero"
| "deriv c One = Zero"
| "deriv c (Cls p) = (if p c then One else Zero)"
| "deriv c (Alt r s) = Alt (deriv c r) (deriv c s)"
| "deriv c (Seq r s) =
     (if nullable r then Alt (Seq (deriv c r) s) (deriv c s) else Seq (deriv c r) s)"
| "deriv c (Star r) = Seq (deriv c r) (Star r)"

definition matches :: "rexp \<Rightarrow> pystr \<Rightarrow> bool" where
  "matches r s = nullable (foldl (\<lambda>r c. deriv c r) r s)"

text \<open>\<^verbatim>\<open>r+\<close> and \<^verbatim>\<open>r{2,}\<close>.\<close>

definition Plus :: "rexp \<Rightarrow> rexp" where
  "Plus r = Seq r (Star r)"

definition AtLeast2 :: "rexp \<Rightarrow> rexp" where
  "AtLeast2 r = Seq r (Seq r (Star r))"

definition ord :: "char \<Rightarrow> nat" where
  "ord c = of_char c"

definition between :: "char \<Rightarrow> char \<Rightarrow> nat \<Rightarrow> bool" where
  "between lo hi c = (ord lo \<le> c \<and> c \<le> ord hi)"

text \<open>\<^verbatim>\<open>[a-zA-Z]\<close>, \<^verbatim>\<open>[a-zA-Z0-9._%+-]\<close> and \<^verbatim>\<open>[a-zA-Z0-9.-]\<close>.\<close>

definition letter :: "nat \<Rightarrow> bool" where
  "letter c = (between CHR ''a'' CHR ''z'' c \<or> between CHR ''A'' CHR ''Z'' c)"

definition local_char :: "nat \<Rightarrow> bool" where
  "local_char c = (letter c \<or> between CHR ''0'' CHR ''9'' c \<or> c \<in> set (lit ''._%+-''))"

definition domain_char :: "nat \<Rightarrow> bool" where
  "domain_char c = (letter c \<or> between CHR ''0'' CHR ''9'' c \<or> c \<in> set (lit ''.-''))"

text \<open>
  The pattern \<^verbatim>\<open>^[a-zA-Z0-9._%+-]+@[a-zA-Z0-9.-]+\.[a-zA-Z]{2,}$\<close> between its anchors.
\<close>

definition email_pattern :: rexp where
  "email_pattern =
     Seq (Plus (Cls local_char))
       (Seq (Cls (\<lambda>c. c = ord CHR ''@''))
          (Seq (Plus (Cls domain_char))
             (Seq (Cls (\<lambda>c. c = ord CHR ''.''))
                (AtLeast2 (Cls letter)))))"

text \<open>
  \<^verbatim>\<open>re.match\<close> anchors at the start; \<^verbatim>\<open>$\<close> matches at the end of the string and
  also just before a newline that ends the string.
\<close>

definition is_valid_email :: "pystr \<Rightarrow> bool" where
  "is_valid_email email =
     (if matches email_pattern email then True
      else if email = [] then False
      else last email = 10 \<and> matches email_pattern (butlast email))"

section \<open>str.strip\<close>

text \<open>
  The code points Python's \<^verbatim>\<open>str.strip()\<close> removes: U+0009 to U+000D, U+001C to U+0020,
  U+0085, U+00A0, U+1680, U+2000 to U+200A, U+2028, U+2029, U+202F, U+205F, U+3000.
\<close>

definition is_space :: "nat \<Rightarrow> bool" where
  "is_space c =
     ((9 \<le> c \<and> c \<le> 13) \<or> (28 \<le> c \<and> c \<le> 32) \<or> c = 133 \<or> c = 160 \<or> c = 5760 \<or>
      (8192 \<le> c \<and> c \<le> 8202) \<or> c = 8232 \<or> c = 8233 \<or> c = 8239 \<or> c = 8287 \<or> c = 12288)"

definition strip :: "pystr \<Rightarrow> pystr" where
  "strip s = rev (dropWhile is_space (rev (dropWhile is_space s)))"

section \<open>The command line\<close>

text \<open>
  \<open>setup_argparse\<close> declares three options, each taking one value, in one mutually
  exclusive group that is required. A command line is the sequence of the options it
  gives with their values, as \<^verbatim>\<open>argparse\<close> reads them from left to right.
  An option that follows a different option of the group is an error, and so is a
  command line giving none; \<^verbatim>\<open>parser.error\<close> leaves with status 2. An option given
  again replaces its earlier value.
\<close>

datatype opt = OptEmail | OptOrg | OptTech

record args =
  arg_email :: "pystr option"
  arg_org_name :: "pystr option"
  arg_technology :: "pystr option"

definition no_args :: args where
  "no_args = \<lparr>arg_email = None, arg_org_name = None, arg_technology = None\<rparr>"

fun store :: "opt \<Rightarrow> pystr \<Rightarrow> args \<Rightarrow> args" where
  "store OptEmail v ns = ns\<lparr>arg_email := Some v\<rparr>"
| "store OptOrg v ns = ns\<lparr>arg_org_name := Some v\<rparr>"
| "store OptTech v ns = ns\<lparr>arg_technology := Some v\<rparr>"

fun take_actions :: "opt list \<Rightarrow> args \<Rightarrow> (opt \<times> pystr) list \<Rightarrow> int + (opt list \<times> args)" where
  "take_actions seen ns [] = Inr (seen, ns)"
| "take_actions seen ns ((k, v) # rest) =
     (if list_ex (\<lambda>k'. k' \<noteq> k) seen then Inl 2
      else take_actions (k # seen) (store k v ns) rest)"

definition parse_args :: "(opt \<times> pystr) list \<Rightarrow> int + args" where
  "parse_args argv =
     (case take_actions [] no_args argv of
        Inl code \<Rightarrow> Inl code
      | Inr (seen, ns) \<Rightarrow> if seen = [] then Inl 2 else Inr ns)"

section \<open>BreachAlarm.run and main\<close>

record breach_alarm =
  self_email :: "pystr option"
  self_org_name :: "pystr option"
  self_technology :: "pystr option"

text \<open>The truth value of an optional string: \<^verbatim>\<open>None\<close> and \<^verbatim>\<open>""\<close> are false.\<close>

fun truthy :: "pystr option \<Rightarrow> bool" where
  "truthy None = False"
| "truthy (Some s) = (s \<noteq> [])"

definition search_code_repositories :: "pystr \<Rightarrow> effect list" where
  "search_code_repositories search_term =
     [Log INFO (SearchingCodeRepositories search_term),
      Print (CodeRepositoriesPlaceholder search_term)]"

definition search_paste_sites :: "pystr \<Rightarrow> effect list" where
  "search_paste_sites search_term =
     [Log INFO (SearchingPasteSites search_term),
      Print (PasteSitesPlaceholder search_term)]"

text \<open>\<open>run\<close> drops what \<open>check_hibp\<close> returns; an exception it lets through goes on.\<close>

definition run :: "network \<Rightarrow> breach_alarm \<Rightarrow> effect list \<times> exn option" where
  "run net self =
     (if truthy (self_email self) then
        (case check_hibp net (the (self_email self)) of
           (out, Inl e) \<Rightarrow> (Log INFO (CheckingEmail (the (self_email self))) # out, Some e)
         | (out, Inr _) \<Rightarrow> (Log INFO (CheckingEmail (the (self_email self))) # out, None))
      else if truthy (self_org_name self) then
        (Log INFO (SearchingOrganization (the (self_org_name self)))
           # search_code_repositories (the (self_org_name self))
           @ search_paste_sites (the (self_org_name self)), None)
      else if truthy (self_technology self) then
        (Log INFO (SearchingTechnology (the (self_technology self)))
           # search_code_repositories (the (self_technology self))
           @ search_paste_sites (the (self_technology self)), None)
      else ([Print ProvideSearchTerm, Log WARNING NoSearchTerm], None))"

text \<open>How a call of \<open>main\<close> ends: it returns, or leaves through \<^verbatim>\<open>sys.exit\<close>, or raises.\<close>

datatype finish = Returned | SystemExit int | Raised exn

definition after_run :: "effect list \<times> exn option \<Rightarrow> effect list \<times> finish" where
  "after_run r = (case r of (out, None) \<Rightarrow> (out, Returned) | (out, Some e) \<Rightarrow> (out, Raised e))"

definition main :: "network \<Rightarrow> (opt \<times> pystr) list \<Rightarrow> effect list \<times> finish" where
  "main net argv =
     (case parse_args argv of
        Inl code \<Rightarrow> ([Stderr UsageError], SystemExit code)
      | Inr a \<Rightarrow>
          if truthy (arg_email a) then
            (if \<not> is_valid_email (the (arg_email a)) then ([Print InvalidEmailFormat], SystemExit 1)
             else after_run (run net \<lparr>self_email = arg_email a, self_org_name = None, self_technology = None\<rparr>))
          else if truthy (arg_org_name a) then
            (if strip (the (arg_org_name a)) = [] then ([Print OrganizationEmpty], SystemExit 1)
             else after_run (run net \<lparr>self_email = None, self_org_name = arg_org_name a, self_technology = None\<rparr>))
          else if truthy (arg_technology a) then
            (if strip (the (arg_technology a)) = [] then ([Print TechnologyEmpty], SystemExit 1)
             else after_run (run net \<lparr>self_email = None, self_org_name = None, self_technology = arg_technology a\<rparr>))
          else ([], Returned))"

text \<open>
  The \<^verbatim>\<open>__main__\<close> block and the exit status of the process: 0 after a return, the
  code of a \<^verbatim>\<open>sys.exit\<close>, 0 after the message for a \<^verbatim>\<open>KeyboardInterrupt\<close>, and 1 for
  any other exception, which the interpreter reports.
\<close>

definition script :: "network \<Rightarrow> (opt \<times> pystr) list \<Rightarrow> effect list \<times> int" where
  "script net argv =
     (case main net argv of
        (out, Returned) \<Rightarrow> (out, 0)
      | (out, SystemExit code) \<Rightarrow> (out, code)
      | (out, Raised e) \<Rightarrow> if e = KeyboardInterrupt then (out @ [Print Exiting], 0) else (out, 1))"

text \<open>The requests among the effects of a run.\<close>

fun is_Get :: "effect \<Rightarrow> bool" where
  "is_Get (Get _ _) = True"
| "is_Get _ = False"

definition requests :: "effect list \<Rightarrow> effect list" where
  "requests out = filter is_Get out"

section \<open>Notions used to state the properties\<close>

text \<open>The options a parsed command line has set, each at most once.\<close>

definition given :: "args \<Rightarrow> opt list" where
  "given a =
     (if arg_email a = None then [] else [OptEmail])
     @ (if arg_org_name a = None then [] else [OptOrg])
     @ (if arg_technology a = None then [] else [OptTech])"

text \<open>
  The specification writes the path of the request as \<^verbatim>\<open>{urlEncodedEmail}\<close>. The
  source has no such function; \<open>url_encoded\<close> is the percent-encoding of RFC 3986 that
  these words name, to compare the address the source sends with: a letter, a digit and
  \<^verbatim>\<open>-._~\<close> stay, any other code point becomes \<^verbatim>\<open>%XX\<close> for each byte of its UTF-8 form.
\<close>

definition unreserved :: "nat \<Rightarrow> bool" where
  "unreserved c = (letter c \<or> between CHR ''0'' CHR ''9'' c \<or> c \<in> set (lit ''-._~''))"

definition utf8 :: "nat \<Rightarrow> nat list" where
  "utf8 c =
     (if c < 128 then [c]
      else if c < 2048 then [192 + c div 64, 128 + c mod 64]
      else if c < 65536 then [224 + c div 4096, 128 + c div 64 mod 64, 128 + c mod 64]
      else [240 + c div 262144, 128 + c div 4096 mod 64, 128 + c div 64 mod 64, 128 + c mod 64])"

definition percent :: "nat \<Rightarrow> pystr" where
  "percent b =
     [ord CHR ''%'', lit ''0123456789ABCDEF'' ! (b div 16), lit ''0123456789ABCDEF'' ! (b mod 16)]"

definition url_encoded :: "pystr \<Rightarrow> pystr" where
  "url_encoded s =
     concat (map (\<lambda>c. if unreserved c then [c] else concat (map percent (utf8 c))) s)"

section \<open>What check_hibp does with each outcome of the request\<close>

lemma check_hibp_on_response:
  "net (hibp_url email) hibp_headers = Inr r \<Longrightarrow> on_response email r = (out, Inr v) \<Longrightarrow>
   check_hibp net email = (Get (hibp_url email) hibp_headers # out, Inr v)"
  by (simp add: check_hibp_def try_body_def)

lemma check_hibp_on_response_raises:
  "net (hibp_url email) hibp_headers = Inr r \<Longrightarrow> on_response email r = (out, Inl e) \<Longrightarrow>
   check_hibp net email =
     (Get (hibp_url email) hibp_headers # out @ fst (on_exception e), snd (on_exception e))"
  by (simp add: check_hibp_def try_body_def split: prod.splits)

lemma check_hibp_on_raise:
  "net (hibp_url email) hibp_headers = Inl e \<Longrightarrow>
   check_hibp net email =
     (Get (hibp_url email) hibp_headers # fst (on_exception e), snd (on_exception e))"
  by (simp add: check_hibp_def try_body_def split: prod.splits)

subsection \<open>Status 200\<close>

lemma names_of_all2:
  "list_all2 (\<lambda>b n. \<exists>kvs. b = PDict kvs \<and> dict_get kvs (lit ''Name'') = Some n) bs ns \<Longrightarrow>
   names_of bs = Inr ns"
  by (induction bs ns rule: list_all2_induct) auto

text \<open>
  C1. When the request is answered with status 200 and the body decodes to a list of
  objects, the \<open>i\<close>-th of which has the value \<open>ns ! i\<close> under \<^verbatim>\<open>Name\<close>, \<open>check_hibp\<close>
  returns the list \<open>ns\<close>: the names in the order received. It makes one request and logs
  the names at level INFO.
\<close>

theorem check_hibp_200_names:
  assumes "net (hibp_url email) hibp_headers = Inr r"
    and "status r = 200"
    and "json r = Inr (PList bs)"
    and "list_all2 (\<lambda>b n. \<exists>kvs. b = PDict kvs \<and> dict_get kvs (lit ''Name'') = Some n) bs ns"
  shows "check_hibp net email =
    ([Get (hibp_url email) hibp_headers, Log INFO (FoundInBreaches email ns)], Inr (Some ns))"
proof -
  have "on_response email r = ([Log INFO (FoundInBreaches email ns)], Inr (Some ns))"
    using assms(2,3) names_of_all2 [OF assms(4)] by (simp add: on_response_def breach_names_def)
  with assms(1) show ?thesis by (simp add: check_hibp_on_response)
qed

text \<open>
  The body \<^verbatim>\<open>[{"Name":"Adobe"},{"Name":"LinkedIn"}]\<close> for the address \<^verbatim>\<open>a@b.com\<close>
  gives \<^verbatim>\<open>["Adobe","LinkedIn"]\<close>.
\<close>

theorem check_hibp_200_names_witness:
  "check_hibp
     (\<lambda>url headers. Inr \<lparr>status = 200,
        json = Inr (PList [PDict [(lit ''Name'', PStr (lit ''Adobe''))],
                           PDict [(lit ''Name'', PStr (lit ''LinkedIn''))]])\<rparr>)
     (lit ''a@b.com'')
   = ([Get (hibp_url (lit ''a@b.com'')) hibp_headers,
       Log INFO (FoundInBreaches (lit ''a@b.com'') [PStr (lit ''Adobe''), PStr (lit ''LinkedIn'')])],
      Inr (Some [PStr (lit ''Adobe''), PStr (lit ''LinkedIn'')]))"
  by (rule check_hibp_200_names [where r = "\<lparr>status = 200,
        json = Inr (PList [PDict [(lit ''Name'', PStr (lit ''Adobe''))],
                           PDict [(lit ''Name'', PStr (lit ''LinkedIn''))]])\<rparr>"
        and bs = "[PDict [(lit ''Name'', PStr (lit ''Adobe''))],
                   PDict [(lit ''Name'', PStr (lit ''LinkedIn''))]]"])
     (simp_all add: dict_get_def)

lemma names_of_missing:
  "\<forall>b\<in>set bs. \<exists>kvs. b = PDict kvs \<Longrightarrow>
   \<exists>b\<in>set bs. \<exists>kvs. b = PDict kvs \<and> dict_get kvs (lit ''Name'') = None \<Longrightarrow>
   names_of bs = Inl (KeyError (lit ''Name''))"
proof (induction bs)
  case Nil
  then show ?case by simp
next
  case (Cons b bs)
  from Cons.prems(1) obtain kvs where b: "b = PDict kvs" by auto
  show ?case
  proof (cases "dict_get kvs (lit ''Name'')")
    case None
    with b show ?thesis by simp
  next
    case (Some v)
    with b Cons.prems have "\<exists>b\<in>set bs. \<exists>kvs. b = PDict kvs \<and> dict_get kvs (lit ''Name'') = None"
      by auto
    with Cons have "names_of bs = Inl (KeyError (lit ''Name''))" by simp
    with b Some show ?thesis by simp
  qed
qed

text \<open>
  C10. When the request is answered with status 200 and the body decodes to a list of
  objects of which at least one has no \<^verbatim>\<open>Name\<close>, the \<^verbatim>\<open>KeyError\<close> of the comprehension
  is caught by the \<^verbatim>\<open>except Exception\<close> clause: \<open>check_hibp\<close> raises nothing and returns
  \<^verbatim>\<open>None\<close>, not the names that were there.
\<close>

theorem check_hibp_200_missing_name:
  assumes "net (hibp_url email) hibp_headers = Inr r"
    and "status r = 200"
    and "json r = Inr (PList bs)"
    and "\<forall>b\<in>set bs. \<exists>kvs. b = PDict kvs"
    and "\<exists>b\<in>set bs. \<exists>kvs. b = PDict kvs \<and> dict_get kvs (lit ''Name'') = None"
  shows "check_hibp net email =
    ([Get (hibp_url email) hibp_headers,
      Log ERROR (UnexpectedError (KeyError (lit ''Name''))),
      Print (UnexpectedError (KeyError (lit ''Name'')))], Inr None)"
proof -
  have "on_response email r = ([], Inl (KeyError (lit ''Name'')))"
    using assms(2,3) names_of_missing [OF assms(4,5)] by (simp add: on_response_def breach_names_def)
  with assms(1) show ?thesis by (simp add: check_hibp_on_response_raises on_exception_def)
qed

text \<open>The body \<^verbatim>\<open>[{"Name":"Adobe"},{"Title":"LinkedIn"}]\<close>: no list comes back.\<close>

theorem check_hibp_200_missing_name_witness:
  "check_hibp
     (\<lambda>url headers. Inr \<lparr>status = 200,
        json = Inr (PList [PDict [(lit ''Name'', PStr (lit ''Adobe''))],
                           PDict [(lit ''Title'', PStr (lit ''LinkedIn''))]])\<rparr>)
     (lit ''a@b.com'')
   = ([Get (hibp_url (lit ''a@b.com'')) hibp_headers,
       Log ERROR (UnexpectedError (KeyError (lit ''Name''))),
       Print (UnexpectedError (KeyError (lit ''Name'')))], Inr None)"
  by (rule check_hibp_200_missing_name [where r = "\<lparr>status = 200,
        json = Inr (PList [PDict [(lit ''Name'', PStr (lit ''Adobe''))],
                           PDict [(lit ''Title'', PStr (lit ''LinkedIn''))]])\<rparr>"
        and bs = "[PDict [(lit ''Name'', PStr (lit ''Adobe''))],
                   PDict [(lit ''Title'', PStr (lit ''LinkedIn''))]]"])
     (simp_all add: dict_get_def lit_def)

subsection \<open>Status 404\<close>

text \<open>
  C6. When the request is answered with status 404, \<open>check_hibp\<close> returns \<^verbatim>\<open>None\<close>, the
  value for no result. Nothing is raised, and the only message is a log line at level
  INFO: the outcome is not reported as an error.
\<close>

theorem check_hibp_404:
  assumes "net (hibp_url email) hibp_headers = Inr r" and "status r = 404"
  shows "check_hibp net email =
    ([Get (hibp_url email) hibp_headers, Log INFO (NotFoundInBreaches email)], Inr None)"
proof -
  have "on_response email r = ([Log INFO (NotFoundInBreaches email)], Inr None)"
    using assms(2) by (simp add: on_response_def)
  with assms(1) show ?thesis by (simp add: check_hibp_on_response)
qed

text \<open>A 404 for the address \<^verbatim>\<open>a@b.com\<close>.\<close>

theorem check_hibp_404_witness:
  "check_hibp (\<lambda>url headers. Inr \<lparr>status = 404, json = Inr PNone\<rparr>) (lit ''a@b.com'') =
    ([Get (hibp_url (lit ''a@b.com'')) hibp_headers, Log INFO (NotFoundInBreaches (lit ''a@b.com''))],
     Inr None)"
  by (rule check_hibp_404 [where r = "\<lparr>status = 404, json = Inr PNone\<rparr>"]) simp_all

subsection \<open>Status 429\<close>

text \<open>
  C2, as the specification states it, asks for a result that differs from the one for
  404. The source returns \<^verbatim>\<open>None\<close> in both branches: for the address \<^verbatim>\<open>a@b.com\<close> the
  value returned after a 429 is the value returned after a 404.
\<close>

theorem check_hibp_429_same_as_404:
  "snd (check_hibp (\<lambda>url headers. Inr \<lparr>status = 429, json = Inr PNone\<rparr>) (lit ''a@b.com'')) =
   snd (check_hibp (\<lambda>url headers. Inr \<lparr>status = 404, json = Inr PNone\<rparr>) (lit ''a@b.com''))"
  by (simp add: check_hibp_def try_body_def on_response_def)

text \<open>
  C2, amended. When the request is answered with status 429, \<open>check_hibp\<close> logs a
  warning, prints the rate-limit message and returns \<^verbatim>\<open>None\<close>; only the messages tell
  the outcome from a 404. The request is made once: there is no retry.
\<close>

theorem check_hibp_429:
  assumes "net (hibp_url email) hibp_headers = Inr r" and "status r = 429"
  shows "check_hibp net email =
    ([Get (hibp_url email) hibp_headers, Log WARNING RateLimitExceeded, Print RateLimitExceeded],
     Inr None)
    \<and> length (requests (fst (check_hibp net email))) = 1"
proof -
  have "on_response email r = ([Log WARNING RateLimitExceeded, Print RateLimitExceeded], Inr None)"
    using assms(2) by (simp add: on_response_def)
  with assms(1) have "check_hibp net email =
    ([Get (hibp_url email) hibp_headers, Log WARNING RateLimitExceeded, Print RateLimitExceeded],
     Inr None)"
    by (simp add: check_hibp_on_response)
  then show ?thesis by (simp add: requests_def)
qed

text \<open>A 429 for the address \<^verbatim>\<open>a@b.com\<close>.\<close>

theorem check_hibp_429_witness:
  "check_hibp (\<lambda>url headers. Inr \<lparr>status = 429, json = Inr PNone\<rparr>) (lit ''a@b.com'') =
    ([Get (hibp_url (lit ''a@b.com'')) hibp_headers, Log WARNING RateLimitExceeded,
      Print RateLimitExceeded], Inr None)
   \<and> length (requests (fst (check_hibp (\<lambda>url headers. Inr \<lparr>status = 429, json = Inr PNone\<rparr>)
        (lit ''a@b.com'')))) = 1"
  by (rule check_hibp_429 [where r = "\<lparr>status = 429, json = Inr PNone\<rparr>"]) simp_all

subsection \<open>Any other status\<close>

text \<open>
  C3, as the specification states it, asks for a result that carries the status code.
  The source returns \<^verbatim>\<open>None\<close>: the value returned after a 500 and the value returned
  after a 503 are both \<^verbatim>\<open>None\<close>, so neither holds its code.
\<close>

theorem check_hibp_500_and_503_return_None:
  "snd (check_hibp (\<lambda>url headers. Inr \<lparr>status = 500, json = Inr PNone\<rparr>) (lit ''a@b.com'')) = Inr None
   \<and> snd (check_hibp (\<lambda>url headers. Inr \<lparr>status = 503, json = Inr PNone\<rparr>) (lit ''a@b.com'')) = Inr None"
  by (simp add: check_hibp_def try_body_def on_response_def)

text \<open>
  C3, amended. When the request is answered with a status other than 200, 404 and 429,
  \<open>check_hibp\<close> logs an error and prints a message, both carrying the status code, and
  returns \<^verbatim>\<open>None\<close>.
\<close>

theorem check_hibp_other_status:
  assumes "net (hibp_url email) hibp_headers = Inr r"
    and "status r \<noteq> 200" and "status r \<noteq> 404" and "status r \<noteq> 429"
  shows "check_hibp net email =
    ([Get (hibp_url email) hibp_headers, Log ERROR (StatusCodeError (status r)),
      Print (StatusCodeError (status r))], Inr None)"
proof -
  have "on_response email r =
    ([Log ERROR (StatusCodeError (status r)), Print (StatusCodeError (status r))], Inr None)"
    using assms(2-4) by (simp add: on_response_def)
  with assms(1) show ?thesis by (simp add: check_hibp_on_response)
qed

text \<open>A 500 for the address \<^verbatim>\<open>a@b.com\<close>.\<close>

theorem check_hibp_other_status_witness:
  "check_hibp (\<lambda>url headers. Inr \<lparr>status = 500, json = Inr PNone\<rparr>) (lit ''a@b.com'') =
    ([Get (hibp_url (lit ''a@b.com'')) hibp_headers, Log ERROR (StatusCodeError 500),
      Print (StatusCodeError 500)], Inr None)"
  using check_hibp_other_status [where r = "\<lparr>status = 500, json = Inr PNone\<rparr>"
      and net = "\<lambda>url headers. Inr \<lparr>status = 500, json = Inr PNone\<rparr>" and email = "lit ''a@b.com''"]
  by simp

subsection \<open>A request that fails\<close>

text \<open>
  C4, as the specification states it, asks for a result that carries the cause of the
  failure. The source returns \<^verbatim>\<open>None\<close>: the value returned after a refused connection
  is the value returned after a 404.
\<close>

theorem check_hibp_refused_same_as_404:
  "snd (check_hibp (\<lambda>url headers. Inl (ClientError (lit ''Connection refused''))) (lit ''a@b.com'')) =
   snd (check_hibp (\<lambda>url headers. Inr \<lparr>status = 404, json = Inr PNone\<rparr>) (lit ''a@b.com''))"
  by (simp add: check_hibp_def try_body_def on_response_def on_exception_def)

text \<open>
  C4, amended. When the request fails with an exception (an \<^verbatim>\<open>aiohttp.ClientError\<close> or
  any other \<^verbatim>\<open>Exception\<close>: timeout, DNS failure, connection refused), \<open>check_hibp\<close> logs
  an error and prints a message, both carrying the cause, and returns \<^verbatim>\<open>None\<close>; the
  exception does not leave \<open>check_hibp\<close>.
\<close>

theorem check_hibp_transport_failure:
  assumes "net (hibp_url email) hibp_headers = Inl e" and "is_Exception e"
  shows "check_hibp net email =
    (if is_ClientError e
     then [Get (hibp_url email) hibp_headers, Log ERROR (AiohttpError e), Print (AiohttpError e)]
     else [Get (hibp_url email) hibp_headers, Log ERROR (UnexpectedError e), Print (UnexpectedError e)],
     Inr None)"
  using assms by (simp add: check_hibp_on_raise on_exception_def)

text \<open>A refused connection, and a timeout that is not a \<^verbatim>\<open>ClientError\<close>.\<close>

theorem check_hibp_transport_failure_witness:
  "check_hibp (\<lambda>url headers. Inl (ClientError (lit ''Connection refused''))) (lit ''a@b.com'') =
     ([Get (hibp_url (lit ''a@b.com'')) hibp_headers,
       Log ERROR (AiohttpError (ClientError (lit ''Connection refused''))),
       Print (AiohttpError (ClientError (lit ''Connection refused'')))], Inr None)
   \<and> check_hibp (\<lambda>url headers. Inl (OtherException (lit ''timed out''))) (lit ''a@b.com'') =
     ([Get (hibp_url (lit ''a@b.com'')) hibp_headers,
       Log ERROR (UnexpectedError (OtherException (lit ''timed out''))),
       Print (UnexpectedError (OtherException (lit ''timed out'')))], Inr None)"
  using check_hibp_transport_failure [where e = "ClientError (lit ''Connection refused'')"
      and net = "\<lambda>url headers. Inl (ClientError (lit ''Connection refused''))" and email = "lit ''a@b.com''"]
    check_hibp_transport_failure [where e = "OtherException (lit ''timed out'')"
      and net = "\<lambda>url headers. Inl (OtherException (lit ''timed out''))" and email = "lit ''a@b.com''"]
  by simp

section \<open>The request that is sent\<close>

lemma requests_on_exception: "requests (fst (on_exception e)) = []"
  by (simp add: on_exception_def requests_def)

lemma requests_on_response: "requests (fst (on_response email r)) = []"
  by (simp add: on_response_def requests_def split: sum.splits)

lemma requests_append: "requests (xs @ ys) = requests xs @ requests ys"
  by (simp add: requests_def)

lemma requests_Get: "requests (Get u h # xs) = Get u h # requests xs"
  by (simp add: requests_def)

text \<open>
  C8, as the specification states it, has the address URL-encoded in the path. The
  source puts it there as it is: the address \<^verbatim>\<open>a%40b@c.de\<close> passes \<open>is_valid_email\<close>
  and is requested under \<^verbatim>\<open>.../breachedaccount/a%40b@c.de\<close>, while its encoding is
  \<^verbatim>\<open>a%2540b%40c.de\<close>.
\<close>

theorem check_hibp_url_not_encoded:
  "is_valid_email (lit ''a%40b@c.de'')
   \<and> requests (fst (check_hibp (\<lambda>url headers. Inr \<lparr>status = 404, json = Inr PNone\<rparr>)
        (lit ''a%40b@c.de''))) =
     [Get (lit ''https://haveibeenpwned.com/api/v3/breachedaccount/a%40b@c.de'')
          [(lit ''hibp-api-key'', lit ''anonymous'')]]
   \<and> url_encoded (lit ''a%40b@c.de'') = lit ''a%2540b%40c.de''"
proof -
  have 1: "is_valid_email (lit ''a%40b@c.de'')" by code_simp
  have 2: "requests (fst (check_hibp (\<lambda>url headers. Inr \<lparr>status = 404, json = Inr PNone\<rparr>)
        (lit ''a%40b@c.de''))) =
     [Get (lit ''https://haveibeenpwned.com/api/v3/breachedaccount/a%40b@c.de'')
          [(lit ''hibp-api-key'', lit ''anonymous'')]]"
    by (simp add: check_hibp_def try_body_def on_response_def requests_def hibp_url_def
        hibp_headers_def lit_def)
  have 3: "url_encoded (lit ''a%40b@c.de'') = lit ''a%2540b%40c.de''" by code_simp
  from 1 2 3 show ?thesis by blast
qed

text \<open>
  C8, amended. For every address and every outcome, \<open>check_hibp\<close> makes exactly one GET
  request, to \<^verbatim>\<open>https://haveibeenpwned.com/api/v3/breachedaccount/\<close> followed by the
  address as it was given, with the header \<^verbatim>\<open>hibp-api-key\<close> set to \<^verbatim>\<open>anonymous\<close>.
\<close>

theorem check_hibp_request:
  "requests (fst (check_hibp net email)) =
     [Get (lit ''https://haveibeenpwned.com/api/v3/breachedaccount/'' @ email)
          [(lit ''hibp-api-key'', lit ''anonymous'')]]"
proof (cases "net (hibp_url email) hibp_headers")
  case (Inl e)
  then show ?thesis
    by (simp add: check_hibp_on_raise requests_Get requests_on_exception)
       (simp add: hibp_url_def hibp_headers_def)
next
  case (Inr r)
  obtain out res where o: "on_response email r = (out, res)" by (cases "on_response email r")
  have out: "requests out = []" using requests_on_response [of email r] o by simp
  show ?thesis
  proof (cases res)
    case (Inl e)
    with Inr o out show ?thesis
      by (simp add: check_hibp_on_response_raises requests_Get requests_append requests_on_exception)
         (simp add: hibp_url_def hibp_headers_def)
  next
    case (Inr v)
    with \<open>net (hibp_url email) hibp_headers = Inr r\<close> o out show ?thesis
      by (simp add: check_hibp_on_response requests_Get)
         (simp add: hibp_url_def hibp_headers_def)
  qed
qed

section \<open>The command line\<close>

lemma given_store: "set (given (store k v a)) = insert k (set (given a))"
  by (cases k) (auto simp: given_def)

lemma distinct_given: "distinct (given a)"
  by (simp add: given_def)

lemma take_actions_given:
  "take_actions seen ns argv = Inr (seen', ns') \<Longrightarrow>
   set (given ns) = set seen \<Longrightarrow> (\<forall>k\<in>set seen. \<forall>k'\<in>set seen. k = k') \<Longrightarrow>
   set (given ns') = set seen' \<and> (\<forall>k\<in>set seen'. \<forall>k'\<in>set seen'. k = k')"
proof (induction seen ns argv rule: take_actions.induct)
  case (1 seen ns)
  then show ?case by simp
next
  case (2 seen ns k v rest)
  from "2.prems"(1) have ok: "\<not> list_ex (\<lambda>k'. k' \<noteq> k) seen"
    by (auto split: if_splits)
  with "2.prems"(1) have run: "take_actions (k # seen) (store k v ns) rest = Inr (seen', ns')"
    by simp
  from ok have same: "\<forall>k'\<in>set seen. k' = k" by (simp add: list_ex_iff)
  have "set (given (store k v ns)) = set (k # seen)"
    using "2.prems"(2) by (simp add: given_store)
  moreover have "\<forall>a\<in>set (k # seen). \<forall>b\<in>set (k # seen). a = b"
    using same by (metis set_ConsD)
  ultimately show ?case using "2.IH" [OF ok run] by blast
qed

lemma take_actions_conflict:
  "(\<forall>k\<in>set seen. \<forall>k'\<in>set seen. k = k') \<Longrightarrow>
   (\<exists>k\<in>set seen \<union> fst ` set argv. \<exists>k'\<in>set seen \<union> fst ` set argv. k \<noteq> k') \<Longrightarrow>
   take_actions seen ns argv = Inl 2"
proof (induction seen ns argv rule: take_actions.induct)
  case (1 seen ns)
  then show ?case by auto
next
  case (2 seen ns k v rest)
  show ?case
  proof (cases "list_ex (\<lambda>k'. k' \<noteq> k) seen")
    case True
    then show ?thesis by simp
  next
    case False
    then have same: "\<forall>k'\<in>set seen. k' = k" by (simp add: list_ex_iff)
    then have "\<forall>a\<in>set (k # seen). \<forall>b\<in>set (k # seen). a = b" by (metis set_ConsD)
    moreover have "\<exists>a\<in>set (k # seen) \<union> fst ` set rest. \<exists>b\<in>set (k # seen) \<union> fst ` set rest. a \<noteq> b"
      using "2.prems"(2) by auto
    ultimately have "take_actions (k # seen) (store k v ns) rest = Inl 2"
      using "2.IH" [OF False] by blast
    with False show ?thesis by simp
  qed
qed

lemma length_given_one:
  assumes "xs \<noteq> []" and "\<forall>k\<in>set xs. \<forall>k'\<in>set xs. k = k'" and "set (given a) = set xs"
  shows "length (given a) = 1"
proof -
  from assms(1) obtain k where "k \<in> set xs" by (cases xs) auto
  with assms(2) have "set xs = {k}" by auto
  with assms(3) have "card (set (given a)) = 1" by simp
  then show ?thesis using distinct_given [of a] by (simp add: distinct_card)
qed

text \<open>
  C9. A command line that parses sets exactly one of the email, the organization and
  the technology, so at most one query is active. A command line that gives two
  different ones of them is rejected by the parser with status 2, and \<open>main\<close> ends
  there: it writes the parser's error and runs nothing of the checker.
\<close>

theorem parse_args_exclusive:
  "(parse_args argv = Inr a \<longrightarrow> length (given a) = 1)
   \<and> ((\<exists>k\<in>fst ` set argv. \<exists>k'\<in>fst ` set argv. k \<noteq> k') \<longrightarrow>
        parse_args argv = Inl 2 \<and> main net argv = ([Stderr UsageError], SystemExit 2))"
proof (intro conjI impI)
  assume ok: "parse_args argv = Inr a"
  then obtain seen where run: "take_actions [] no_args argv = Inr (seen, a)" and ne: "seen \<noteq> []"
    by (auto simp: parse_args_def split: sum.splits prod.splits if_splits)
  have "set (given no_args) = set []" by (simp add: given_def no_args_def)
  with take_actions_given [OF run] have "set (given a) = set seen"
    and "\<forall>k\<in>set seen. \<forall>k'\<in>set seen. k = k'" by auto
  with ne show "length (given a) = 1" by (simp add: length_given_one)
next
  assume two: "\<exists>k\<in>fst ` set argv. \<exists>k'\<in>fst ` set argv. k \<noteq> k'"
  have "take_actions [] no_args argv = Inl 2"
    by (rule take_actions_conflict) (use two in auto)
  then show "parse_args argv = Inl 2" by (simp add: parse_args_def)
  then show "main net argv = ([Stderr UsageError], SystemExit 2)" by (simp add: main_def)
qed

text \<open>
  The command line \<^verbatim>\<open>-e a@b.com\<close> parses and sets one option; \<^verbatim>\<open>-e a@b.com -o Acme\<close>
  is rejected.
\<close>

theorem parse_args_exclusive_witness:
  "parse_args [(OptEmail, lit ''a@b.com'')] =
     Inr \<lparr>arg_email = Some (lit ''a@b.com''), arg_org_name = None, arg_technology = None\<rparr>
   \<and> length (given \<lparr>arg_email = Some (lit ''a@b.com''), arg_org_name = None, arg_technology = None\<rparr>) = 1
   \<and> parse_args [(OptEmail, lit ''a@b.com''), (OptOrg, lit ''Acme'')] = Inl 2
   \<and> main (\<lambda>url headers. Inr \<lparr>status = 404, json = Inr PNone\<rparr>)
        [(OptEmail, lit ''a@b.com''), (OptOrg, lit ''Acme'')] = ([Stderr UsageError], SystemExit 2)"
proof -
  have p: "parse_args [(OptEmail, lit ''a@b.com'')] =
     Inr \<lparr>arg_email = Some (lit ''a@b.com''), arg_org_name = None, arg_technology = None\<rparr>"
    by (simp add: parse_args_def no_args_def)
  have two: "\<exists>k\<in>fst ` set [(OptEmail, lit ''a@b.com''), (OptOrg, lit ''Acme'')].
      \<exists>k'\<in>fst ` set [(OptEmail, lit ''a@b.com''), (OptOrg, lit ''Acme'')]. k \<noteq> k'"
    by (intro bexI [of _ OptEmail] bexI [of _ OptOrg]) simp_all
  show ?thesis
    using p two
      parse_args_exclusive [of "[(OptEmail, lit ''a@b.com'')]"
        "\<lparr>arg_email = Some (lit ''a@b.com''), arg_org_name = None, arg_technology = None\<rparr>"]
      parse_args_exclusive [of "[(OptEmail, lit ''a@b.com''), (OptOrg, lit ''Acme'')]" _
        "\<lambda>url headers. Inr \<lparr>status = 404, json = Inr PNone\<rparr>"]
    by blast
qed

section \<open>The address pattern on examples\<close>

text \<open>
  An ordinary address passes; a last label of one letter does not; a newline that ends
  the string is let through by \<^verbatim>\<open>$\<close>.
\<close>

lemma is_valid_email_example: "is_valid_email (lit ''test@example.com'')"
  by code_simp

lemma is_valid_email_short_label: "\<not> is_valid_email (lit ''a@b.c'')"
  by code_simp

lemma is_valid_email_final_newline: "is_valid_email (lit ''a@b.com'' @ [10])"
  by code_simp

section \<open>The checks of main\<close>

lemma parse_args_single: "parse_args [(k, v)] = Inr (store k v no_args)"
  by (simp add: parse_args_def)

text \<open>
  An address that is not empty and fails the pattern ends \<open>main\<close> with status 1 after
  the message; no request is made.
\<close>

lemma main_invalid_email:
  "email \<noteq> [] \<Longrightarrow> \<not> is_valid_email email \<Longrightarrow>
   main net [(OptEmail, email)] = ([Print InvalidEmailFormat], SystemExit 1)"
  by (simp add: main_def parse_args_single no_args_def)

text \<open>
  C5 at the empty address. The empty string fails the pattern, yet \<^verbatim>\<open>if args.email:\<close>
  is false for it, and so are the two tests that follow: \<open>main\<close> returns without a
  message, and the process ends with status 0, not 1. No request is made.
\<close>

theorem main_empty_email:
  "\<not> is_valid_email [] \<and> main net [(OptEmail, [])] = ([], Returned)
   \<and> script net [(OptEmail, [])] = ([], 0)"
proof -
  have 1: "\<not> is_valid_email []" by code_simp
  have 2: "main net [(OptEmail, [])] = ([], Returned)"
    by (simp add: main_def parse_args_single no_args_def)
  from 1 2 show ?thesis by (simp add: script_def)
qed

text \<open>
  A name that is not empty and is empty once stripped ends \<open>main\<close> with status 1 after
  the message; no search runs. The string of two spaces is one.
\<close>

lemma main_blank_name:
  "s \<noteq> [] \<Longrightarrow> strip s = [] \<Longrightarrow>
   main net [(OptOrg, s)] = ([Print OrganizationEmpty], SystemExit 1)
   \<and> main net [(OptTech, s)] = ([Print TechnologyEmpty], SystemExit 1)"
  by (simp add: main_def parse_args_single no_args_def)

lemma main_two_spaces:
  "main net [(OptOrg, lit ''  '')] = ([Print OrganizationEmpty], SystemExit 1)
   \<and> main net [(OptTech, lit ''  '')] = ([Print TechnologyEmpty], SystemExit 1)"
  by (rule main_blank_name) (simp_all add: lit_def strip_def is_space_def)

text \<open>
  C7 at the empty name. The empty string is empty after stripping, yet
  \<^verbatim>\<open>elif args.org_name:\<close> and \<^verbatim>\<open>elif args.technology:\<close> are false for it: \<open>main\<close>
  returns without a message, and the process ends with status 0, not 1. No search runs.
\<close>

theorem main_empty_name:
  "strip [] = [] \<and> main net [(OptOrg, [])] = ([], Returned) \<and> script net [(OptOrg, [])] = ([], 0)
   \<and> main net [(OptTech, [])] = ([], Returned) \<and> script net [(OptTech, [])] = ([], 0)"
proof -
  have 1: "main net [(OptOrg, [])] = ([], Returned)"
    by (simp add: main_def parse_args_single no_args_def)
  have 2: "main net [(OptTech, [])] = ([], Returned)"
    by (simp add: main_def parse_args_single no_args_def)
  from 1 2 show ?thesis by (simp add: script_def strip_def)
qed

end
